theory Spec2Isabelle
  imports Main "HOL-Library.Word"
begin

section \<open>Built-in admin tools: the registry and its breadcrumb index\<close>

text \<open>
  The module \<^verbatim>\<open>frontend/src/config/builtin-tools.ts\<close> declares a literal array
  \<^verbatim>\<open>BUILTIN_TOOLS\<close> of tool descriptors and derives from it the object
  \<^verbatim>\<open>BUILTIN_TOOL_BREADCRUMBS\<close>, which maps a descriptor's \<^verbatim>\<open>href\<close> to its
  \<^verbatim>\<open>name\<close>.
\<close>

subsection \<open>Strings\<close>

text \<open>
  A JavaScript string is a sequence of UTF-16 code units, and two strings are equal when
  their code units are. The names and descriptions of the registry are Chinese text
  (every character of it lies in the Basic Multilingual Plane: one code unit each); the
  hrefs are ASCII. \<open>ascii\<close> reads an ASCII literal as its code units.
\<close>

type_synonym js_string = "16 word list"

definition ascii :: "string \<Rightarrow> js_string" where
  "ascii s = map (\<lambda>c. of_char c) s"

text \<open>\<^verbatim>\<open>String.prototype.startsWith\<close>: the receiver begins with the code units of \<open>p\<close>.\<close>

definition startsWith :: "js_string \<Rightarrow> js_string \<Rightarrow> bool" where
  "startsWith s p = (take (length p) s = p)"

subsection \<open>The descriptor type\<close>

text \<open>
  \<^verbatim>\<open>
  import { Mail, Shield, AlertTriangle } from 'lucide-vue-next'
  export interface BuiltinTool {
    name: string
    description: string
    href: string
    icon: LucideIcon
  }
  \<close>
  The icons are components of an external package; the module only stores references to
  the three it imports.
\<close>

datatype LucideIcon = Mail | Shield | AlertTriangle

record BuiltinTool =
  name :: js_string
  description :: js_string
  href :: js_string
  icon :: LucideIcon

subsection \<open>The registry\<close>

text \<open>
  The array literal, element by element in the order of the source. The code units
  beyond ASCII are written in hexadecimal:
  \<^item> name 1: U+90AE U+4EF6 U+914D U+7F6E;
  \<^item> name 2: \<^verbatim>\<open>IP \<close> and U+5B89 U+5168;
  \<^item> name 3: U+5BA1 U+8BA1 U+65E5 U+5FD7.
\<close>

definition tool_email :: BuiltinTool where
  "tool_email =
     \<lparr> name = [0x90AE, 0x4EF6, 0x914D, 0x7F6E],
       description =
         [0x914D, 0x7F6E] @ ascii '' SMTP '' @
         [0x90AE, 0x4EF6, 0x670D, 0x52A1, 0xFF0C, 0x7BA1, 0x7406, 0x90AE, 0x4EF6,
          0x6A21, 0x677F, 0x548C, 0x53D1, 0x9001, 0x8BBE, 0x7F6E],
       href = ascii ''/admin/email'',
       icon = Mail \<rparr>"

definition tool_ip_security :: BuiltinTool where
  "tool_ip_security =
     \<lparr> name = ascii ''IP '' @ [0x5B89, 0x5168],
       description =
         [0x7BA1, 0x7406] @ ascii '' IP '' @
         [0x9ED1, 0x767D, 0x540D, 0x5355, 0xFF0C, 0x63A7, 0x5236, 0x7CFB, 0x7EDF,
          0x8BBF, 0x95EE, 0x6743, 0x9650],
       href = ascii ''/admin/ip-security'',
       icon = Shield \<rparr>"

definition tool_audit_logs :: BuiltinTool where
  "tool_audit_logs =
     \<lparr> name = [0x5BA1, 0x8BA1, 0x65E5, 0x5FD7],
       description =
         [0x67E5, 0x770B, 0x7CFB, 0x7EDF, 0x64CD, 0x4F5C, 0x65E5, 0x5FD7, 0xFF0C,
          0x8FFD, 0x8E2A, 0x5B89, 0x5168, 0x4E8B, 0x4EF6, 0x4E0E, 0x53D8, 0x66F4,
          0x8BB0, 0x5F55],
       href = ascii ''/admin/audit-logs'',
       icon = AlertTriangle \<rparr>"

definition BUILTIN_TOOLS :: "BuiltinTool list" where
  "BUILTIN_TOOLS = [tool_email, tool_ip_security, tool_audit_logs]"

subsection \<open>Objects with string-valued properties\<close>

text \<open>
  A \<^verbatim>\<open>Record<string, string>\<close> is an ordinary object: its own properties, each a
  key with a value, kept in the order of their creation, no key twice. \<open>GetOwnProperty\<close>
  reads an own property; for a key the object itself does not have it gives \<open>None\<close>
  (the lookup \<^verbatim>\<open>obj[k]\<close> would go on to the prototype, which is not modelled).
  \<open>own_keys\<close> lists the keys in the order of their creation; \<^verbatim>\<open>Object.keys\<close> returns
  the same keys, those that are array indices moved to the front.

  \<open>CreateDataProperty\<close> is the step \<^verbatim>\<open>Object.fromEntries\<close> performs for one entry:
  a key the object already has keeps its place and takes the new value, a new key is
  added after the others.
\<close>

type_synonym js_object = "(js_string \<times> js_string) list"

fun CreateDataProperty :: "js_object \<Rightarrow> js_string \<Rightarrow> js_string \<Rightarrow> js_object" where
  "CreateDataProperty [] k v = [(k, v)]"
| "CreateDataProperty ((k', v') # ps) k v =
     (if k' = k then (k', v) # ps else (k', v') # CreateDataProperty ps k v)"

definition GetOwnProperty :: "js_object \<Rightarrow> js_string \<Rightarrow> js_string option" where
  "GetOwnProperty obj k = map_of obj k"

definition own_keys :: "js_object \<Rightarrow> js_string list" where
  "own_keys obj = map fst obj"

text \<open>
  \<^verbatim>\<open>Object.fromEntries(entries)\<close> starts from the empty object and takes the entries in
  the order of the array, one \<open>CreateDataProperty\<close> each. It throws only for an argument
  that is not iterable or an entry that is not an object; the argument here is an array
  of two-element arrays of strings, so the model has no failing branch and the entries
  are pairs.
\<close>

definition Object_fromEntries :: "(js_string \<times> js_string) list \<Rightarrow> js_object" where
  "Object_fromEntries entries = foldl (\<lambda>obj (k, v). CreateDataProperty obj k v) [] entries"

subsection \<open>The breadcrumb index\<close>

text \<open>
  \<^verbatim>\<open>
  export const BUILTIN_TOOL_BREADCRUMBS: Record<string, string> = Object.fromEntries(
    BUILTIN_TOOLS.map(t => [t.href, t.name])
  )
  \<close>
  \<open>breadcrumbs_of\<close> is the right-hand side as a function of the registry it reads.
\<close>

definition breadcrumbs_of :: "BuiltinTool list \<Rightarrow> js_object" where
  "breadcrumbs_of tools = Object_fromEntries (map (\<lambda>t. (href t, name t)) tools)"

definition BUILTIN_TOOL_BREADCRUMBS :: js_object where
  "BUILTIN_TOOL_BREADCRUMBS = breadcrumbs_of BUILTIN_TOOLS"

section \<open>Properties of the object operations\<close>

lemma own_keys_Nil: "own_keys [] = []"
  by (simp add: own_keys_def)

lemma own_keys_Cons: "own_keys (p # ps) = fst p # own_keys ps"
  by (simp add: own_keys_def)

text \<open>Writing a property changes what is read at that key and at no other.\<close>

lemma GetOwnProperty_CreateDataProperty:
  "GetOwnProperty (CreateDataProperty obj k v) k' =
     (if k' = k then Some v else GetOwnProperty obj k')"
  unfolding GetOwnProperty_def by (induction obj) auto

text \<open>Writing a property adds its key at the end, unless the object has the key.\<close>

lemma own_keys_CreateDataProperty:
  "own_keys (CreateDataProperty obj k v) =
     (if k \<in> set (own_keys obj) then own_keys obj else own_keys obj @ [k])"
proof (induction obj)
  case Nil
  show ?case by (simp add: own_keys_Nil own_keys_Cons)
next
  case (Cons p ps)
  obtain k' v' where p: "p = (k', v')" by (cases p)
  show ?case by (simp add: p Cons.IH own_keys_Cons)
qed

lemma distinct_CreateDataProperty:
  "distinct (own_keys obj) \<Longrightarrow> distinct (own_keys (CreateDataProperty obj k v))"
  by (simp add: own_keys_CreateDataProperty)

text \<open>
  The loop of \<open>Object_fromEntries\<close>, from any object \<open>acc\<close> built so far: a key is read
  from the last entry that has it, and from \<open>acc\<close> when no entry has it.
\<close>

lemma GetOwnProperty_foldl:
  "GetOwnProperty (foldl (\<lambda>obj (k, v). CreateDataProperty obj k v) acc es) k =
     (case map_of (rev es) k of Some v \<Rightarrow> Some v | None \<Rightarrow> GetOwnProperty acc k)"
proof (induction es arbitrary: acc)
  case Nil
  show ?case by simp
next
  case (Cons e es)
  obtain k' v' where e: "e = (k', v')" by (cases e)
  show ?case
    by (simp add: Cons.IH e GetOwnProperty_CreateDataProperty map_add_def
          split: option.splits)
qed

lemma own_keys_foldl:
  "set (own_keys (foldl (\<lambda>obj (k, v). CreateDataProperty obj k v) acc es)) =
     set (own_keys acc) \<union> fst ` set es"
proof (induction es arbitrary: acc)
  case Nil
  show ?case by simp
next
  case (Cons e es)
  obtain k' v' where e: "e = (k', v')" by (cases e)
  show ?case
    by (auto simp add: Cons.IH e own_keys_CreateDataProperty)
qed

lemma distinct_foldl:
  "distinct (own_keys acc) \<Longrightarrow>
   distinct (own_keys (foldl (\<lambda>obj (k, v). CreateDataProperty obj k v) acc es))"
proof (induction es arbitrary: acc)
  case Nil
  then show ?case by simp
next
  case (Cons e es)
  obtain k' v' where e: "e = (k', v')" by (cases e)
  from Cons.prems have "distinct (own_keys (CreateDataProperty acc k' v'))"
    by (rule distinct_CreateDataProperty)
  then show ?case
    by (simp add: e Cons.IH)
qed

lemma GetOwnProperty_fromEntries:
  "GetOwnProperty (Object_fromEntries es) k = map_of (rev es) k"
  unfolding Object_fromEntries_def GetOwnProperty_foldl
  by (simp add: GetOwnProperty_def split: option.splits)

lemma own_keys_fromEntries: "set (own_keys (Object_fromEntries es)) = fst ` set es"
  unfolding Object_fromEntries_def own_keys_foldl by (simp add: own_keys_def)

lemma distinct_fromEntries: "distinct (own_keys (Object_fromEntries es))"
  unfolding Object_fromEntries_def by (rule distinct_foldl) (simp add: own_keys_def)

section \<open>Properties of the derivation, for any registry\<close>

text \<open>
  Among the pairs \<^verbatim>\<open>[t.href, t.name]\<close> taken from the end of the registry, the first
  with the href of \<open>d\<close> belongs to the last descriptor of the registry with that href.
\<close>

lemma map_of_rev_entries:
  "d \<in> set tools \<Longrightarrow>
   map_of (rev (map (\<lambda>t. (href t, name t)) tools)) (href d) =
     Some (name (last (filter (\<lambda>t. href t = href d) tools)))"
proof (induction tools rule: rev_induct)
  case Nil
  then show ?case by simp
next
  case (snoc t ts)
  show ?case
  proof (cases "href t = href d")
    case True
    then show ?thesis by simp
  next
    case False
    with snoc.prems have "d \<in> set ts" by auto
    with snoc.IH False show ?thesis by simp
  qed
qed

lemma GetOwnProperty_breadcrumbs_of:
  "d \<in> set tools \<Longrightarrow>
   GetOwnProperty (breadcrumbs_of tools) (href d) =
     Some (name (last (filter (\<lambda>t. href t = href d) tools)))"
  by (simp add: breadcrumbs_of_def GetOwnProperty_fromEntries map_of_rev_entries)

lemma own_keys_breadcrumbs_of: "set (own_keys (breadcrumbs_of tools)) = href ` set tools"
  by (simp add: breadcrumbs_of_def own_keys_fromEntries image_image)

lemma distinct_breadcrumbs_of: "distinct (own_keys (breadcrumbs_of tools))"
  by (simp add: breadcrumbs_of_def distinct_fromEntries)

lemma length_own_keys_breadcrumbs_of:
  "length (own_keys (breadcrumbs_of tools)) = card (href ` set tools)"
  using distinct_card [OF distinct_breadcrumbs_of, of tools]
  by (simp add: own_keys_breadcrumbs_of)

text \<open>Where the hrefs are distinct, a descriptor is the only one with its href.\<close>

lemma filter_href_unique:
  "distinct (map href tools) \<Longrightarrow> d \<in> set tools \<Longrightarrow>
   filter (\<lambda>t. href t = href d) tools = [d]"
proof (induction tools)
  case Nil
  then show ?case by simp
next
  case (Cons t ts)
  from Cons.prems(1) have fresh: "\<forall>u\<in>set ts. href u \<noteq> href t"
    and dist: "distinct (map href ts)"
    by (auto simp add: image_iff)
  show ?case
  proof (cases "d = t")
    case True
    from fresh have "filter (\<lambda>u. href u = href t) ts = []"
      by (simp add: filter_empty_conv)
    with True show ?thesis by simp
  next
    case False
    with Cons.prems(2) have mem: "d \<in> set ts" by simp
    with fresh have "href t \<noteq> href d" by auto
    with Cons.IH [OF dist mem] show ?thesis by simp
  qed
qed

section \<open>The registry as declared\<close>

lemma BUILTIN_TOOLS_hrefs:
  "map href BUILTIN_TOOLS =
     [ascii ''/admin/email'', ascii ''/admin/ip-security'', ascii ''/admin/audit-logs'']"
  by (simp add: BUILTIN_TOOLS_def tool_email_def tool_ip_security_def tool_audit_logs_def)

lemma BUILTIN_TOOLS_names:
  "map name BUILTIN_TOOLS =
     [[0x90AE, 0x4EF6, 0x914D, 0x7F6E], ascii ''IP '' @ [0x5B89, 0x5168],
      [0x5BA1, 0x8BA1, 0x65E5, 0x5FD7]]"
  by (simp add: BUILTIN_TOOLS_def tool_email_def tool_ip_security_def tool_audit_logs_def)

lemma BUILTIN_TOOLS_hrefs_distinct: "distinct (map href BUILTIN_TOOLS)"
  unfolding BUILTIN_TOOLS_hrefs by (simp add: ascii_def)

lemma BUILTIN_TOOLS_entries:
  "map (\<lambda>t. (href t, name t)) BUILTIN_TOOLS =
     [(ascii ''/admin/email'', [0x90AE, 0x4EF6, 0x914D, 0x7F6E]),
      (ascii ''/admin/ip-security'', ascii ''IP '' @ [0x5B89, 0x5168]),
      (ascii ''/admin/audit-logs'', [0x5BA1, 0x8BA1, 0x65E5, 0x5FD7])]"
  by (simp add: BUILTIN_TOOLS_def tool_email_def tool_ip_security_def tool_audit_logs_def)

text \<open>Three entries with distinct keys become three properties, in the same order.\<close>

lemma fromEntries_three:
  "k1 \<noteq> k2 \<Longrightarrow> k1 \<noteq> k3 \<Longrightarrow> k2 \<noteq> k3 \<Longrightarrow>
   Object_fromEntries [(k1, v1), (k2, v2), (k3, v3)] = [(k1, v1), (k2, v2), (k3, v3)]"
  by (simp add: Object_fromEntries_def)

lemma BUILTIN_TOOL_BREADCRUMBS_properties:
  "BUILTIN_TOOL_BREADCRUMBS =
     [(ascii ''/admin/email'', [0x90AE, 0x4EF6, 0x914D, 0x7F6E]),
      (ascii ''/admin/ip-security'', ascii ''IP '' @ [0x5B89, 0x5168]),
      (ascii ''/admin/audit-logs'', [0x5BA1, 0x8BA1, 0x65E5, 0x5FD7])]"
  unfolding BUILTIN_TOOL_BREADCRUMBS_def breadcrumbs_of_def BUILTIN_TOOLS_entries
  by (rule fromEntries_three) (simp_all add: ascii_def)

section \<open>The registry and its index: the verified properties\<close>

text \<open>
  Claim C1. For every descriptor \<open>d\<close> of \<open>BUILTIN_TOOLS\<close>, reading the property
  \<open>href d\<close> of \<open>BUILTIN_TOOL_BREADCRUMBS\<close> yields the name of the last descriptor of the
  registry with that href, and that name is the name of \<open>d\<close> itself.
\<close>

theorem breadcrumbs_lookup_yields_name:
  "d \<in> set BUILTIN_TOOLS \<Longrightarrow>
   GetOwnProperty BUILTIN_TOOL_BREADCRUMBS (href d) =
     Some (name (last (filter (\<lambda>t. href t = href d) BUILTIN_TOOLS))) \<and>
   GetOwnProperty BUILTIN_TOOL_BREADCRUMBS (href d) = Some (name d)"
proof -
  assume d: "d \<in> set BUILTIN_TOOLS"
  then have last_wins: "GetOwnProperty BUILTIN_TOOL_BREADCRUMBS (href d) =
      Some (name (last (filter (\<lambda>t. href t = href d) BUILTIN_TOOLS)))"
    unfolding BUILTIN_TOOL_BREADCRUMBS_def by (rule GetOwnProperty_breadcrumbs_of)
  from BUILTIN_TOOLS_hrefs_distinct d
  have "filter (\<lambda>t. href t = href d) BUILTIN_TOOLS = [d]"
    by (rule filter_href_unique)
  with last_wins show ?thesis by simp
qed

theorem breadcrumbs_lookup_yields_name_witness:
  "tool_ip_security \<in> set BUILTIN_TOOLS \<and>
   GetOwnProperty BUILTIN_TOOL_BREADCRUMBS (ascii ''/admin/ip-security'') =
     Some (ascii ''IP '' @ [0x5B89, 0x5168])"
proof -
  have m: "tool_ip_security \<in> set BUILTIN_TOOLS"
    by (simp add: BUILTIN_TOOLS_def)
  from breadcrumbs_lookup_yields_name [OF m]
  have "GetOwnProperty BUILTIN_TOOL_BREADCRUMBS (href tool_ip_security) =
      Some (name tool_ip_security)"
    by (rule conjunct2)
  then have "GetOwnProperty BUILTIN_TOOL_BREADCRUMBS (ascii ''/admin/ip-security'') =
     Some (ascii ''IP '' @ [0x5B89, 0x5168])"
    by (simp add: tool_ip_security_def)
  with m show ?thesis by (rule conjI)
qed

text \<open>
  Claim C2. The keys of \<open>BUILTIN_TOOL_BREADCRUMBS\<close> are exactly the hrefs of the
  descriptors of \<open>BUILTIN_TOOLS\<close>: every href is a key, every key is an href, and no key
  occurs twice.
\<close>

theorem breadcrumbs_keys_exact:
  "set (own_keys BUILTIN_TOOL_BREADCRUMBS) = href ` set BUILTIN_TOOLS \<and>
   distinct (own_keys BUILTIN_TOOL_BREADCRUMBS)"
  unfolding BUILTIN_TOOL_BREADCRUMBS_def
  by (simp add: own_keys_breadcrumbs_of distinct_breadcrumbs_of)

text \<open>
  Claim C3. For every registry, the index derived from it has at most as many keys as
  the registry has descriptors, and exactly as many if and only if the hrefs of the
  registry are pairwise distinct.
\<close>

theorem breadcrumbs_key_count:
  "length (own_keys (breadcrumbs_of tools)) \<le> length tools \<and>
   (length (own_keys (breadcrumbs_of tools)) = length tools
      \<longleftrightarrow> distinct (map href tools))"
proof -
  have le: "card (set (map href tools)) \<le> length (map href tools)"
    by (rule card_length)
  have iff: "(card (set (map href tools)) = length (map href tools)) = distinct (map href tools)"
    using card_distinct [of "map href tools"] distinct_card [of "map href tools"] by blast
  from le iff show ?thesis
    by (simp add: length_own_keys_breadcrumbs_of)
qed

text \<open>
  Claim C4. Two descriptors with the same href give an index with one property, whose
  value is the name of the second: for the registry of \<^verbatim>\<open>{name: "A", href: "/x"}\<close> and
  \<^verbatim>\<open>{name: "B", href: "/x"}\<close> (whatever their descriptions and icons) the derivation
  returns exactly \<^verbatim>\<open>{"/x": "B"}\<close>. The derivation is a total function whose result is an
  object: there is no error value it could return instead.
\<close>

theorem duplicate_path_last_write_wins:
  "breadcrumbs_of
     [\<lparr> name = na, description = da, href = h, icon = ia \<rparr>,
      \<lparr> name = nb, description = db, href = h, icon = ib \<rparr>]
   = [(h, nb)] \<and>
   breadcrumbs_of
     [\<lparr> name = ascii ''A'', description = da, href = ascii ''/x'', icon = ia \<rparr>,
      \<lparr> name = ascii ''B'', description = db, href = ascii ''/x'', icon = ib \<rparr>]
   = [(ascii ''/x'', ascii ''B'')]"
  by (simp add: breadcrumbs_of_def Object_fromEntries_def)

text \<open>
  Claim C5. For the empty registry the derivation returns the object without
  properties; \<^verbatim>\<open>Object.fromEntries\<close> of the empty array is that object.
\<close>

theorem empty_registry_empty_index:
  "Object_fromEntries [] = [] \<and> breadcrumbs_of [] = []"
  by (simp add: breadcrumbs_of_def Object_fromEntries_def)

text \<open>
  Claim C6. The registry holds the three descriptors named U+90AE U+4EF6 U+914D U+7F6E,
  \<^verbatim>\<open>IP \<close> U+5B89 U+5168 and U+5BA1 U+8BA1 U+65E5 U+5FD7, with the hrefs
  \<^verbatim>\<open>/admin/email\<close>, \<^verbatim>\<open>/admin/ip-security\<close> and \<^verbatim>\<open>/admin/audit-logs\<close>, and
  \<open>BUILTIN_TOOL_BREADCRUMBS\<close> is exactly the object with the three properties that map
  each of these hrefs to the name declared with it.
\<close>

theorem builtin_breadcrumbs_value:
  "map (\<lambda>t. (name t, href t)) BUILTIN_TOOLS =
     [([0x90AE, 0x4EF6, 0x914D, 0x7F6E], ascii ''/admin/email''),
      (ascii ''IP '' @ [0x5B89, 0x5168], ascii ''/admin/ip-security''),
      ([0x5BA1, 0x8BA1, 0x65E5, 0x5FD7], ascii ''/admin/audit-logs'')] \<and>
   BUILTIN_TOOL_BREADCRUMBS =
     [(ascii ''/admin/email'', [0x90AE, 0x4EF6, 0x914D, 0x7F6E]),
      (ascii ''/admin/ip-security'', ascii ''IP '' @ [0x5B89, 0x5168]),
      (ascii ''/admin/audit-logs'', [0x5BA1, 0x8BA1, 0x65E5, 0x5FD7])]"
proof
  show "map (\<lambda>t. (name t, href t)) BUILTIN_TOOLS =
     [([0x90AE, 0x4EF6, 0x914D, 0x7F6E], ascii ''/admin/email''),
      (ascii ''IP '' @ [0x5B89, 0x5168], ascii ''/admin/ip-security''),
      ([0x5BA1, 0x8BA1, 0x65E5, 0x5FD7], ascii ''/admin/audit-logs'')]"
    by (simp add: BUILTIN_TOOLS_def tool_email_def tool_ip_security_def
          tool_audit_logs_def)
  show "BUILTIN_TOOL_BREADCRUMBS =
     [(ascii ''/admin/email'', [0x90AE, 0x4EF6, 0x914D, 0x7F6E]),
      (ascii ''/admin/ip-security'', ascii ''IP '' @ [0x5B89, 0x5168]),
      (ascii ''/admin/audit-logs'', [0x5BA1, 0x8BA1, 0x65E5, 0x5FD7])]"
    by (rule BUILTIN_TOOL_BREADCRUMBS_properties)
qed

text \<open>
  Claim C7. In \<open>BUILTIN_TOOLS\<close> as declared, no two descriptors have the same href.
\<close>

theorem builtin_hrefs_unique:
  "distinct (map href BUILTIN_TOOLS)"
proof -
  have "distinct
      [ascii ''/admin/email'', ascii ''/admin/ip-security'', ascii ''/admin/audit-logs'']"
    by (simp add: ascii_def)
  then show ?thesis by (simp only: BUILTIN_TOOLS_hrefs)
qed

text \<open>
  Claim C9. The href of every descriptor of \<open>BUILTIN_TOOLS\<close> starts with
  \<^verbatim>\<open>/admin/\<close>, and so does every key of \<open>BUILTIN_TOOL_BREADCRUMBS\<close>.
\<close>

theorem builtin_hrefs_admin_prefix:
  "(\<forall>t\<in>set BUILTIN_TOOLS. startsWith (href t) (ascii ''/admin/'')) \<and>
   (\<forall>k\<in>set (own_keys BUILTIN_TOOL_BREADCRUMBS). startsWith k (ascii ''/admin/''))"
proof -
  have hrefs: "\<forall>k\<in>set (map href BUILTIN_TOOLS). startsWith k (ascii ''/admin/'')"
    unfolding BUILTIN_TOOLS_hrefs by (simp add: startsWith_def ascii_def)
  have keys: "set (own_keys BUILTIN_TOOL_BREADCRUMBS) = set (map href BUILTIN_TOOLS)"
    unfolding BUILTIN_TOOL_BREADCRUMBS_def by (simp add: own_keys_breadcrumbs_of)
  from hrefs show ?thesis unfolding keys by simp
qed

theorem builtin_hrefs_admin_prefix_witness:
  "tool_audit_logs \<in> set BUILTIN_TOOLS \<and>
   startsWith (ascii ''/admin/audit-logs'') (ascii ''/admin/'')"
proof -
  have m: "tool_audit_logs \<in> set BUILTIN_TOOLS"
    by (simp add: BUILTIN_TOOLS_def)
  from builtin_hrefs_admin_prefix
  have "\<forall>t\<in>set BUILTIN_TOOLS. startsWith (href t) (ascii ''/admin/'')"
    by (rule conjunct1)
  then have "startsWith (href tool_audit_logs) (ascii ''/admin/'')"
    using m by (rule bspec)
  then have "startsWith (ascii ''/admin/audit-logs'') (ascii ''/admin/'')"
    by (simp add: tool_audit_logs_def)
  with m show ?thesis by (rule conjI)
qed

text \<open>
  Claim C10. The names of the descriptors of \<open>BUILTIN_TOOLS\<close> are pairwise distinct and
  none is the empty string, and \<open>BUILTIN_TOOL_BREADCRUMBS\<close> is injective on its keys:
  two different keys are never mapped to the same name.
\<close>

theorem builtin_names_distinct_index_injective:
  "distinct (map name BUILTIN_TOOLS) \<and>
   (\<forall>t\<in>set BUILTIN_TOOLS. name t \<noteq> []) \<and>
   inj_on (GetOwnProperty BUILTIN_TOOL_BREADCRUMBS) (set (own_keys BUILTIN_TOOL_BREADCRUMBS))"
proof (intro conjI)
  show "distinct (map name BUILTIN_TOOLS)"
    unfolding BUILTIN_TOOLS_names by (simp add: ascii_def)
  have "\<forall>n\<in>set (map name BUILTIN_TOOLS). n \<noteq> []"
    unfolding BUILTIN_TOOLS_names by (simp add: ascii_def)
  then show "\<forall>t\<in>set BUILTIN_TOOLS. name t \<noteq> []" by simp
  show "inj_on (GetOwnProperty BUILTIN_TOOL_BREADCRUMBS)
          (set (own_keys BUILTIN_TOOL_BREADCRUMBS))"
    unfolding BUILTIN_TOOL_BREADCRUMBS_properties
    by (simp add: own_keys_def GetOwnProperty_def ascii_def)
qed

theorem builtin_names_distinct_index_injective_witness:
  "tool_email \<in> set BUILTIN_TOOLS \<and> name tool_email \<noteq> [] \<and>
   GetOwnProperty BUILTIN_TOOL_BREADCRUMBS (ascii ''/admin/email'') \<noteq>
   GetOwnProperty BUILTIN_TOOL_BREADCRUMBS (ascii ''/admin/audit-logs'')"
proof -
  have m: "tool_email \<in> set BUILTIN_TOOLS"
    by (simp add: BUILTIN_TOOLS_def)
  from builtin_names_distinct_index_injective
  have "\<forall>t\<in>set BUILTIN_TOOLS. name t \<noteq> []" by blast
  then have ne: "name tool_email \<noteq> []" using m by (rule bspec)
  from builtin_names_distinct_index_injective
  have inj: "inj_on (GetOwnProperty BUILTIN_TOOL_BREADCRUMBS)
      (set (own_keys BUILTIN_TOOL_BREADCRUMBS))" by blast
  have k1: "ascii ''/admin/email'' \<in> set (own_keys BUILTIN_TOOL_BREADCRUMBS)"
    and k2: "ascii ''/admin/audit-logs'' \<in> set (own_keys BUILTIN_TOOL_BREADCRUMBS)"
    unfolding BUILTIN_TOOL_BREADCRUMBS_properties by (simp_all add: own_keys_def)
  have diff: "ascii ''/admin/email'' \<noteq> ascii ''/admin/audit-logs''"
    by (simp add: ascii_def)
  from inj k1 k2 diff
  have "GetOwnProperty BUILTIN_TOOL_BREADCRUMBS (ascii ''/admin/email'') \<noteq>
        GetOwnProperty BUILTIN_TOOL_BREADCRUMBS (ascii ''/admin/audit-logs'')"
    by (auto dest: inj_onD)
  with m ne show ?thesis by simp
qed

end
